theory Spec2Isabelle
  imports Main
begin

section \<open>JavaScript values\<close>

text \<open>
  The expense form and the member modal work on plain JavaScript values: drafts,
  items, payees and error mappings are object literals, lists are arrays. An object
  is an association list of its own properties (the first binding of a key is the
  one that is read), a number is an integer (amounts are in cents; the code below
  only reads the truthiness and the type of a number).
\<close>

datatype jsval =
    JUndefined
  | JNull
  | JBool bool
  | JNum int
  | JStr string
  | JArr "jsval list"
  | JObj "(string \<times> jsval) list"

text \<open>
  What a call can end with instead of a value: a \<^verbatim>\<open>TypeError\<close> thrown by the language,
  the rejection of a remote call with its reason, and \<open>OutsideModel\<close> for the few
  inputs whose JavaScript semantics this development does not cover (they are named
  where they occur).
\<close>

datatype error = TypeError | Rejected jsval | OutsideModel

text \<open>Truthiness, as read by \<^verbatim>\<open>if (v)\<close>, \<^verbatim>\<open>!v\<close>, \<^verbatim>\<open>a && b\<close>.\<close>

fun truthy :: "jsval \<Rightarrow> bool" where
  "truthy JUndefined = False"
| "truthy JNull = False"
| "truthy (JBool b) = b"
| "truthy (JNum n) = (n \<noteq> 0)"
| "truthy (JStr s) = (s \<noteq> [])"
| "truthy (JArr xs) = True"
| "truthy (JObj kvs) = True"

fun nullish :: "jsval \<Rightarrow> bool" where
  "nullish JUndefined = True"
| "nullish JNull = True"
| "nullish v = False"

fun typeof :: "jsval \<Rightarrow> string" where
  "typeof JUndefined = ''undefined''"
| "typeof JNull = ''object''"
| "typeof (JBool b) = ''boolean''"
| "typeof (JNum n) = ''number''"
| "typeof (JStr s) = ''string''"
| "typeof (JArr xs) = ''object''"
| "typeof (JObj kvs) = ''object''"

text \<open>\<^verbatim>\<open>a && b\<close> yields \<^verbatim>\<open>a\<close> itself when it is falsy, and \<^verbatim>\<open>b\<close> otherwise.\<close>

definition js_and :: "jsval \<Rightarrow> jsval \<Rightarrow> jsval" where
  "js_and a b = (if truthy a then b else a)"

text \<open>
  The named properties of a value. Only objects carry the keys the source reads
  (\<^verbatim>\<open>id\<close>, \<^verbatim>\<open>url\<close>, \<^verbatim>\<open>payee\<close>, ...); a primitive or an array has none of them.
\<close>

fun props :: "jsval \<Rightarrow> (string \<times> jsval) list" where
  "props (JObj kvs) = kvs"
| "props v = []"

definition lookup :: "jsval \<Rightarrow> string \<Rightarrow> jsval option" where
  "lookup v k = map_of (props v) k"

text \<open>
  \<^verbatim>\<open>v.k\<close> on a value that is neither \<^verbatim>\<open>null\<close> nor \<^verbatim>\<open>undefined\<close>: a missing key reads
  as \<^verbatim>\<open>undefined\<close>. A read on \<^verbatim>\<open>null\<close> or \<^verbatim>\<open>undefined\<close> throws; the callers below test
  \<open>nullish\<close> before they use \<open>get\<close>.
\<close>

definition get :: "jsval \<Rightarrow> string \<Rightarrow> jsval" where
  "get v k = (case lookup v k of None \<Rightarrow> JUndefined | Some x \<Rightarrow> x)"

text \<open>Optional chaining \<^verbatim>\<open>v?.k\<close>.\<close>

definition get_opt :: "jsval \<Rightarrow> string \<Rightarrow> jsval" where
  "get_opt v k = (if nullish v then JUndefined else get v k)"

text \<open>
  Assignment \<^verbatim>\<open>o.k = v\<close> on an object: an existing key keeps its place, a new key is
  added at the end.
\<close>

fun set_props :: "(string \<times> jsval) list \<Rightarrow> string \<Rightarrow> jsval \<Rightarrow> (string \<times> jsval) list" where
  "set_props [] k v = [(k, v)]"
| "set_props ((k', v') # kvs) k v =
     (if k' = k then (k, v) # kvs else (k', v') # set_props kvs k v)"

definition assign :: "jsval \<Rightarrow> string \<Rightarrow> jsval \<Rightarrow> error + jsval" where
  "assign obj k v =
     (case obj of
        JObj kvs \<Rightarrow> Inr (JObj (set_props kvs k v))
      | JArr xs \<Rightarrow> Inl OutsideModel
      | _ \<Rightarrow> Inl TypeError)"

text \<open>
  \<^verbatim>\<open>xs.length > 0\<close>. The read throws on \<^verbatim>\<open>null\<close> and \<^verbatim>\<open>undefined\<close>; a number or a boolean
  has no length (\<^verbatim>\<open>undefined > 0\<close> is false). An object with a \<^verbatim>\<open>length\<close> property of its
  own would have it coerced to a number: no draft has such items, and the case is left
  outside the model.
\<close>

fun length_gt0 :: "jsval \<Rightarrow> error + bool" where
  "length_gt0 JUndefined = Inl TypeError"
| "length_gt0 JNull = Inl TypeError"
| "length_gt0 (JArr xs) = Inr (xs \<noteq> [])"
| "length_gt0 (JStr s) = Inr (s \<noteq> [])"
| "length_gt0 (JBool b) = Inr False"
| "length_gt0 (JNum n) = Inr False"
| "length_gt0 (JObj kvs) = Inl OutsideModel"

subsection \<open>lodash\<close>

text \<open>
  \<^verbatim>\<open>pick(object, keys)\<close>: a new object with those of the keys that the object has, in
  the order of the keys. On \<^verbatim>\<open>null\<close>, \<^verbatim>\<open>undefined\<close> and on values without the keys the
  result is the empty object.
\<close>

fun pick_props :: "(string \<times> jsval) list \<Rightarrow> string list \<Rightarrow> (string \<times> jsval) list" where
  "pick_props kvs [] = []"
| "pick_props kvs (k # ks) =
     (case map_of kvs k of
        None \<Rightarrow> pick_props kvs ks
      | Some v \<Rightarrow> (k, v) # pick_props kvs ks)"

definition pick :: "jsval \<Rightarrow> string list \<Rightarrow> jsval" where
  "pick v ks = JObj (pick_props (props v) ks)"

text \<open>
  \<^verbatim>\<open>isEmpty(value)\<close>: no own keys for an object, length zero for an array or a string,
  and true for every other value.
\<close>

fun isEmpty :: "jsval \<Rightarrow> bool" where
  "isEmpty (JObj kvs) = (kvs = [])"
| "isEmpty (JArr xs) = (xs = [])"
| "isEmpty (JStr s) = (s = [])"
| "isEmpty v = True"

subsection \<open>Arrays\<close>

text \<open>
  \<^verbatim>\<open>xs.map(f)\<close> where the callback may throw: the first exception ends the loop.
\<close>

fun map_err :: "('a \<Rightarrow> error + 'b) \<Rightarrow> 'a list \<Rightarrow> error + 'b list" where
  "map_err f [] = Inr []"
| "map_err f (x # xs) =
     (case f x of
        Inl e \<Rightarrow> Inl e
      | Inr y \<Rightarrow> (case map_err f xs of Inl e \<Rightarrow> Inl e | Inr ys \<Rightarrow> Inr (y # ys)))"

section \<open>Constants of the repository\<close>

text \<open>
  Modelled from the spec: \<^verbatim>\<open>lib/constants/expenseTypes\<close> is not among the sources;
  the spec gives the type of an expense as the enumeration RECEIPT | INVOICE, whose
  members are the strings of these names.
\<close>

definition expenseTypes_INVOICE :: jsval where
  "expenseTypes_INVOICE = JStr ''INVOICE''"

definition expenseTypes_RECEIPT :: jsval where
  "expenseTypes_RECEIPT = JStr ''RECEIPT''"


text \<open>
  \<^verbatim>\<open>a === c\<close> against one of the string constants above: equal primitives are
  strictly equal, an object or an array is never strictly equal to a string.
\<close>

definition strict_eq :: "jsval \<Rightarrow> jsval \<Rightarrow> bool" where
  "strict_eq a c = (a = c)"

section \<open>Submission payload: \<^verbatim>\<open>prepareExpenseForSubmit\<close>\<close>

text \<open>
  The callback of \<^verbatim>\<open>expenseData.items.map\<close>: \<^verbatim>\<open>item.__isNew\<close> throws on \<^verbatim>\<open>null\<close> and
  \<^verbatim>\<open>undefined\<close>; otherwise the item is reduced to the picked keys.
\<close>

definition prepareItem :: "jsval \<Rightarrow> jsval \<Rightarrow> error + jsval" where
  "prepareItem expenseData item =
     (if nullish item then Inl TypeError
      else Inr (pick item
        ((if truthy (get item ''__isNew'') then [] else [''id'']) @
         (if strict_eq (get expenseData ''type'') expenseTypes_INVOICE then [] else [''url'']) @
         [''description'', ''incurredAt'', ''amount''])))"

text \<open>
  \<^verbatim>\<open>expenseData.attachedFiles?.map(file => pick(file, ['id', 'url']))\<close>: \<^verbatim>\<open>undefined\<close> when
  there is no list, a \<^verbatim>\<open>TypeError\<close> when the value is not an array (it has no \<^verbatim>\<open>map\<close>).
\<close>

definition prepareAttachedFiles :: "jsval \<Rightarrow> error + jsval" where
  "prepareAttachedFiles files =
     (if nullish files then Inr JUndefined
      else case files of
        JArr fs \<Rightarrow> Inr (JArr (map (\<lambda>file. pick file [''id'', ''url'']) fs))
      | _ \<Rightarrow> Inl TypeError)"

text \<open>
  \<^verbatim>\<open>expenseData.items.map(...)\<close>: a \<^verbatim>\<open>TypeError\<close> unless \<^verbatim>\<open>items\<close> is an array.
\<close>

definition prepareItems :: "jsval \<Rightarrow> error + jsval" where
  "prepareItems expenseData =
     (case get expenseData ''items'' of
        JArr its \<Rightarrow>
          (case map_err (prepareItem expenseData) its of
             Inl e \<Rightarrow> Inl e
           | Inr its' \<Rightarrow> Inr (JArr its'))
      | _ \<Rightarrow> Inl TypeError)"

definition payeeIdField :: "jsval \<Rightarrow> string" where
  "payeeIdField expenseData =
     (if typeof (get_opt (get expenseData ''payee'') ''id'') = ''string''
      then ''id'' else ''legacyId'')"

definition prepareExpenseForSubmit :: "jsval \<Rightarrow> error + jsval" where
  "prepareExpenseForSubmit expenseData =
     (if nullish expenseData then Inl TypeError
      else
        case prepareAttachedFiles (get expenseData ''attachedFiles'') of
          Inl e \<Rightarrow> Inl e
        | Inr files \<Rightarrow>
            (case prepareItems expenseData of
               Inl e \<Rightarrow> Inl e
             | Inr its \<Rightarrow>
                 Inr (JObj
                   (props (pick expenseData
                      [''id'', ''description'', ''type'', ''privateMessage'', ''invoiceInfo'', ''tags'']) @
                    [(''payee'',
                        js_and (get expenseData ''payee'')
                          (JObj [(payeeIdField expenseData, get (get expenseData ''payee'') ''id'')])),
                     (''payoutMethod'',
                        pick (get expenseData ''payoutMethod'')
                          [''id'', ''name'', ''data'', ''isSaved'', ''type'']),
                     (''attachedFiles'', files),
                     (''items'', its)]))))"

section \<open>Validation: \<^verbatim>\<open>validate\<close>\<close>

text \<open>
  Modelled from the spec: \<^verbatim>\<open>requireFields\<close> and the error constructor of
  \<^verbatim>\<open>lib/form-utils\<close> and \<^verbatim>\<open>lib/errors\<close> are not among the sources. The spec: "Required-field
  check over description, payee, payoutMethod, currency; missing/empty values produce a
  required field error keyed by field name." A value is missing when it is
  \<^verbatim>\<open>undefined\<close> or \<^verbatim>\<open>null\<close>, and empty when it is the empty string; the result is a new
  mapping with one entry for each such field, in the order of the fields.
\<close>

definition requiredFieldError :: jsval where
  "requiredFieldError = JObj [(''type'', JStr ''FORM_FIELD_REQUIRED'')]"

fun missingOrEmpty :: "jsval \<Rightarrow> bool" where
  "missingOrEmpty JUndefined = True"
| "missingOrEmpty JNull = True"
| "missingOrEmpty (JStr s) = (s = [])"
| "missingOrEmpty v = False"

fun requireFields_props :: "jsval \<Rightarrow> string list \<Rightarrow> (string \<times> jsval) list" where
  "requireFields_props obj [] = []"
| "requireFields_props obj (field # fields) =
     (if missingOrEmpty (get obj field)
      then (field, requiredFieldError) # requireFields_props obj fields
      else requireFields_props obj fields)"

definition requireFields :: "jsval \<Rightarrow> string list \<Rightarrow> jsval" where
  "requireFields obj fields = JObj (requireFields_props obj fields)"

text \<open>
  The two sub-validators \<^verbatim>\<open>validateExpenseItem(expense, item)\<close> and
  \<^verbatim>\<open>validatePayoutMethod(payoutMethod)\<close> are imported from other components; they are
  parameters here, functions from values to error mappings.
\<close>

definition validate ::
  "(jsval \<Rightarrow> jsval \<Rightarrow> jsval) \<Rightarrow> (jsval \<Rightarrow> jsval) \<Rightarrow> jsval \<Rightarrow> error + jsval" where
  "validate validateExpenseItem validatePayoutMethod expense =
     (if nullish expense then Inl TypeError
      else
        let errors = requireFields expense [''description'', ''payee'', ''payoutMethod'', ''currency''] in
        case
          (case length_gt0 (get expense ''items'') of
             Inl e \<Rightarrow> Inl e
           | Inr nonempty \<Rightarrow>
               if nonempty then
                 (case get expense ''items'' of
                    JArr its \<Rightarrow>
                      (let itemsErrors = map (validateExpenseItem expense) its;
                           hasErrors = list_ex (\<lambda>errors. \<not> isEmpty errors) itemsErrors
                       in if hasErrors then assign errors ''items'' (JArr itemsErrors)
                          else Inr errors)
                  | _ \<Rightarrow> Inl TypeError)
               else Inr errors)
        of
          Inl e \<Rightarrow> Inl e
        | Inr errors \<Rightarrow>
            if truthy (get expense ''payoutMethod'') then
              (let payoutMethodErrors = validatePayoutMethod (get expense ''payoutMethod'')
               in if \<not> isEmpty payoutMethodErrors
                  then assign errors ''payoutMethod'' payoutMethodErrors
                  else Inr errors)
            else Inr errors)"

subsection \<open>The same function over an explicit store\<close>






section \<open>Stepwise gating: \<^verbatim>\<open>ExpenseFormBody\<close>\<close>

text \<open>
  The three derived values of a render, with the short circuit of \<^verbatim>\<open>&&\<close>: the items
  are read only when type and description are set.
\<close>

definition hasBaseFormFieldsCompleted :: "jsval \<Rightarrow> error + jsval" where
  "hasBaseFormFieldsCompleted values =
     (if nullish values then Inl TypeError
      else Inr (js_and (get values ''type'') (get values ''description'')))"

definition stepOneCompleted :: "jsval \<Rightarrow> error + jsval" where
  "stepOneCompleted values =
     (case hasBaseFormFieldsCompleted values of
        Inl e \<Rightarrow> Inl e
      | Inr base \<Rightarrow>
          if truthy base then
            (case length_gt0 (get values ''items'') of
               Inl e \<Rightarrow> Inl e
             | Inr nonempty \<Rightarrow> Inr (JBool nonempty))
          else Inr base)"

definition stepTwoCompleted :: "jsval \<Rightarrow> error + jsval" where
  "stepTwoCompleted values =
     (case stepOneCompleted values of
        Inl e \<Rightarrow> Inl e
      | Inr one \<Rightarrow> Inr (js_and one (get values ''payoutMethod'')))"

text \<open>
  The \<^verbatim>\<open>disabled\<close> attribute of the submit button; \<open>isValid\<close> is \<^verbatim>\<open>formik.isValid\<close>, the
  form library's flag that the form has no validation errors.
\<close>

definition submitDisabled :: "jsval \<Rightarrow> bool \<Rightarrow> error + bool" where
  "submitDisabled values isValid =
     (case stepTwoCompleted values of
        Inl e \<Rightarrow> Inl e
      | Inr two \<Rightarrow> Inr (\<not> truthy two \<or> \<not> isValid))"

section \<open>Submit attempts: \<^verbatim>\<open>ExpenseForm\<close>\<close>

text \<open>
  The state a submit attempt touches: the \<^verbatim>\<open>hasValidate\<close> state of the component, the
  errors held by the form library (\<^verbatim>\<open>formik.setErrors\<close>), and the arguments of the calls
  of the external \<^verbatim>\<open>onSubmit\<close>, in order.
\<close>

record form_state =
  hasValidate :: bool
  formErrors :: jsval
  submitted :: "jsval list"

datatype validation_mode = OnSubmitOnly | OnEveryChange

text \<open>
  \<^verbatim>\<open>validate={hasValidate && validate}\<close>: the form library validates on every change
  exactly when it is given a validation function.
\<close>

definition validationMode :: "form_state \<Rightarrow> validation_mode" where
  "validationMode st = (if hasValidate st then OnEveryChange else OnSubmitOnly)"

text \<open>
  The \<^verbatim>\<open>onSubmit\<close> handler given to the form library. \<open>onSubmit\<close> is the callback of the
  component's caller, with the outcome of its promise.
\<close>

definition submitHandler ::
  "(jsval \<Rightarrow> jsval \<Rightarrow> jsval) \<Rightarrow> (jsval \<Rightarrow> jsval) \<Rightarrow> (jsval \<Rightarrow> error + jsval) \<Rightarrow>
   jsval \<Rightarrow> form_state \<Rightarrow> (error + jsval) \<times> form_state" where
  "submitHandler validateExpenseItem validatePayoutMethod onSubmit values st =
     (case validate validateExpenseItem validatePayoutMethod values of
        Inl e \<Rightarrow> (Inl e, st)
      | Inr errors \<Rightarrow>
          if \<not> isEmpty errors
          then (Inr JUndefined, st\<lparr>hasValidate := True, formErrors := errors\<rparr>)
          else (onSubmit values, st\<lparr>submitted := submitted st @ [values]\<rparr>))"

text \<open>A session: the submit attempts of the user, one after the other.\<close>

fun submitAttempts ::
  "(jsval \<Rightarrow> jsval \<Rightarrow> jsval) \<Rightarrow> (jsval \<Rightarrow> jsval) \<Rightarrow> (jsval \<Rightarrow> error + jsval) \<Rightarrow>
   jsval list \<Rightarrow> form_state \<Rightarrow> form_state" where
  "submitAttempts vi vp onSubmit [] st = st"
| "submitAttempts vi vp onSubmit (values # rest) st =
     submitAttempts vi vp onSubmit rest (snd (submitHandler vi vp onSubmit values st))"

section \<open>Draft persistence: loading on mount\<close>





section \<open>Member edit modal: \<^verbatim>\<open>handleSubmitForm\<close>\<close>

text \<open>
  The component state is the \<^verbatim>\<open>submitting\<close> flag of \<^verbatim>\<open>React.useState(false)\<close>. The handler
  is an asynchronous function with one \<^verbatim>\<open>await\<close>: \<open>handleSubmitForm_issue\<close> is its code
  up to the call of the mutation and gives the variables of the call together with the
  state in which the component stays while the mutation is in flight;
  \<open>handleSubmitForm_resume\<close> is the code after the \<^verbatim>\<open>await\<close>, run with the outcome of
  the mutation. \<open>bound\<close> tells whether \<^verbatim>\<open>submitMemberForm\<close> holds a function.
\<close>

record modal_state =
  submitting :: bool

definition lodash_get :: "jsval \<Rightarrow> string \<Rightarrow> jsval" where
  "lodash_get obj k = get_opt obj k"

definition handleSubmitForm_issue ::
  "bool \<Rightarrow> jsval \<Rightarrow> jsval \<Rightarrow> jsval \<Rightarrow> modal_state \<Rightarrow> (error + jsval option) \<times> modal_state" where
  "handleSubmitForm_issue bound member collective values st =
     (if \<not> bound then (Inr None, st)
      else if nullish values then (Inl TypeError, st)
      else if nullish member then (Inl TypeError, st)
      else
        (Inr (Some (JObj
           [(''variables'', JObj
              [(''memberAccount'', JObj [(''slug'', lodash_get (get member ''member'') ''slug'')]),
               (''account'', JObj [(''slug'', lodash_get collective ''slug'')]),
               (''description'', get values ''description''),
               (''role'', get values ''role''),
               (''since'', get values ''since'')])])),
         st))"

definition handleSubmitForm_resume ::
  "error + jsval \<Rightarrow> modal_state \<Rightarrow> (error + unit) \<times> modal_state" where
  "handleSubmitForm_resume settled st =
     (case settled of
        Inl e \<Rightarrow> (Inl e, st)
      | Inr response \<Rightarrow>
          if nullish response \<or> nullish (get response ''data'') then (Inl TypeError, st)
          else (Inr (), st\<lparr>submitting := True\<rparr>))"

text \<open>
  One run of the handler against a mutation \<open>editMemberAccount\<close>: the state while the
  mutation is in flight (if one is issued), the outcome, and the final state.
\<close>

definition handleSubmitForm ::
  "bool \<Rightarrow> (jsval \<Rightarrow> error + jsval) \<Rightarrow> jsval \<Rightarrow> jsval \<Rightarrow> jsval \<Rightarrow> modal_state \<Rightarrow>
   modal_state option \<times> (error + unit) \<times> modal_state" where
  "handleSubmitForm bound editMemberAccount member collective values st =
     (case handleSubmitForm_issue bound member collective values st of
        (Inl e, st1) \<Rightarrow> (None, Inl e, st1)
      | (Inr None, st1) \<Rightarrow> (None, Inr (), st1)
      | (Inr (Some options), st1) \<Rightarrow>
          (case handleSubmitForm_resume (editMemberAccount options) st1 of
             (res, st2) \<Rightarrow> (Some st1, res, st2)))"

section \<open>Sample drafts\<close>

text \<open>
  Three drafts as the form produces them, and the payloads they are submitted as: an
  invoice with a new item and a saved one, paid to a payee picked by its string id; a
  receipt whose payee was created on the fly and has a numeric id; a draft without
  payee.
\<close>

definition draftInvoice :: jsval where
  "draftInvoice = JObj
     [(''description'', JStr ''Hosting''),
      (''type'', JStr ''INVOICE''),
      (''payee'', JObj [(''id'', JStr ''abc'')]),
      (''payoutMethod'', JObj [(''id'', JStr ''pm1''), (''type'', JStr ''PAYPAL'')]),
      (''currency'', JStr ''USD''),
      (''items'', JArr
         [JObj [(''id'', JStr ''k1''), (''__isNew'', JBool True),
                (''url'', JStr ''https://example.org/a.png''),
                (''description'', JStr ''Server''), (''incurredAt'', JStr ''2020-05-01''),
                (''amount'', JNum 4200)],
          JObj [(''id'', JStr ''item-7''),
                (''url'', JStr ''https://example.org/b.png''),
                (''description'', JStr ''Domain''), (''incurredAt'', JStr ''2020-05-02''),
                (''amount'', JNum 1500)]])]"

definition payloadInvoice :: jsval where
  "payloadInvoice = JObj
     [(''description'', JStr ''Hosting''),
      (''type'', JStr ''INVOICE''),
      (''payee'', JObj [(''id'', JStr ''abc'')]),
      (''payoutMethod'', JObj [(''id'', JStr ''pm1''), (''type'', JStr ''PAYPAL'')]),
      (''attachedFiles'', JUndefined),
      (''items'', JArr
         [JObj [(''description'', JStr ''Server''), (''incurredAt'', JStr ''2020-05-01''),
                (''amount'', JNum 4200)],
          JObj [(''id'', JStr ''item-7''),
                (''description'', JStr ''Domain''), (''incurredAt'', JStr ''2020-05-02''),
                (''amount'', JNum 1500)]])]"

definition draftLegacyPayee :: jsval where
  "draftLegacyPayee = JObj
     [(''description'', JStr ''Lunch''),
      (''type'', JStr ''RECEIPT''),
      (''payee'', JObj [(''id'', JNum 42), (''legacyId'', JNum 42)]),
      (''items'', JArr [])]"

definition payloadLegacyPayee :: jsval where
  "payloadLegacyPayee = JObj
     [(''description'', JStr ''Lunch''),
      (''type'', JStr ''RECEIPT''),
      (''payee'', JObj [(''legacyId'', JNum 42)]),
      (''payoutMethod'', JObj []),
      (''attachedFiles'', JUndefined),
      (''items'', JArr [])]"

definition draftNoPayee :: jsval where
  "draftNoPayee = JObj
     [(''description'', JStr []),
      (''type'', JStr ''RECEIPT''),
      (''payee'', JNull),
      (''items'', JArr [])]"

definition payloadNoPayee :: jsval where
  "payloadNoPayee = JObj
     [(''description'', JStr []),
      (''type'', JStr ''RECEIPT''),
      (''payee'', JNull),
      (''payoutMethod'', JObj []),
      (''attachedFiles'', JUndefined),
      (''items'', JArr [])]"

text \<open>
  Sub-validators that accept everything, and the error mapping of the draft without
  payee under them.
\<close>

definition noErrors :: jsval where
  "noErrors = JObj []"

definition errorsNoPayee :: jsval where
  "errorsNoPayee = JObj
     [(''description'', requiredFieldError), (''payee'', requiredFieldError),
      (''payoutMethod'', requiredFieldError), (''currency'', requiredFieldError)]"

text \<open>A draft with a payout method and no items; the state of a form before any submit.\<close>

definition draftNoItems :: jsval where
  "draftNoItems = JObj
     [(''description'', JStr ''Lunch''),
      (''type'', JStr ''RECEIPT''),
      (''payee'', JObj [(''id'', JStr ''abc'')]),
      (''payoutMethod'', JObj [(''id'', JStr ''pm1''), (''type'', JStr ''PAYPAL'')]),
      (''currency'', JStr ''USD''),
      (''items'', JArr [])]"

definition formInitial :: form_state where
  "formInitial = \<lparr>hasValidate = False, formErrors = JObj [], submitted = []\<rparr>"



definition collectiveNoTransferwise :: jsval where
  "collectiveNoTransferwise = JObj
     [(''slug'', JStr ''webpack''), (''currency'', JStr ''USD''),
      (''host'', JObj [(''slug'', JStr ''osc'')])]"


text \<open>A member edit: the member, the edited values, a failing and a successful mutation.\<close>

definition memberAlice :: jsval where
  "memberAlice = JObj [(''id'', JNum 7), (''member'', JObj [(''slug'', JStr ''alice'')])]"

definition editedValues :: jsval where
  "editedValues = JObj
     [(''description'', JStr ''Maintainer''), (''role'', JStr ''ADMIN''),
      (''since'', JStr ''2020-01-01'')]"

definition networkError :: error where
  "networkError = Rejected (JStr ''Network error'')"

definition mutationResponse :: jsval where
  "mutationResponse = JObj [(''data'', JObj [(''editMember'', JObj [(''id'', JStr ''m1'')])])]"

section \<open>Properties of the submission payload\<close>

lemma map_err_Inr_length: "map_err f xs = Inr ys \<Longrightarrow> length ys = length xs"
  by (induction xs arbitrary: ys) (auto split: sum.splits)

lemma map_err_Inr_nth:
  "map_err f xs = Inr ys \<Longrightarrow> i < length xs \<Longrightarrow> f (xs ! i) = Inr (ys ! i)"
proof (induction xs arbitrary: ys i)
  case Nil
  then show ?case by simp
next
  case (Cons x xs)
  then show ?case by (cases i) (auto split: sum.splits)
qed

lemma map_of_pick_props:
  "map_of (pick_props kvs ks) k = (if k \<in> set ks then map_of kvs k else None)"
  by (induction ks) (auto split: option.splits)

lemma lookup_pick: "lookup (pick v ks) k = (if k \<in> set ks then lookup v k else None)"
  by (simp add: lookup_def pick_def map_of_pick_props)

lemma lookup_pick_append:
  "k \<notin> set ks \<Longrightarrow> lookup (JObj (props (pick e ks) @ rest)) k = map_of rest k"
  by (simp add: lookup_def pick_def map_add_def map_of_pick_props)

lemma prepareItems_Inr:
  "prepareItems e = Inr r \<Longrightarrow>
     \<exists>its its'. get e ''items'' = JArr its \<and> r = JArr its' \<and>
       map_err (prepareItem e) its = Inr its'"
  by (auto simp: prepareItems_def split: jsval.splits sum.splits)

text \<open>A payload that is returned has the shape of the object literal of the source.\<close>

lemma prepareExpenseForSubmit_Inr:
  "prepareExpenseForSubmit e = Inr p \<Longrightarrow>
     \<exists>files its. prepareItems e = Inr its \<and>
       p = JObj (props (pick e [''id'', ''description'', ''type'', ''privateMessage'', ''invoiceInfo'', ''tags'']) @
                 [(''payee'', js_and (get e ''payee'')
                       (JObj [(payeeIdField e, get (get e ''payee'') ''id'')])),
                  (''payoutMethod'', pick (get e ''payoutMethod'')
                       [''id'', ''name'', ''data'', ''isSaved'', ''type'']),
                  (''attachedFiles'', files),
                  (''items'', its)])"
  by (auto simp: prepareExpenseForSubmit_def split: if_splits sum.splits)

lemma prepareExpenseForSubmit_items:
  assumes "prepareExpenseForSubmit e = Inr p"
  shows "\<exists>its its'. get e ''items'' = JArr its \<and> get p ''items'' = JArr its' \<and>
           map_err (prepareItem e) its = Inr its'"
proof -
  from prepareExpenseForSubmit_Inr[OF assms] obtain files r where
    r: "prepareItems e = Inr r" and
    p: "p = JObj (props (pick e [''id'', ''description'', ''type'', ''privateMessage'', ''invoiceInfo'', ''tags'']) @
                 [(''payee'', js_and (get e ''payee'')
                       (JObj [(payeeIdField e, get (get e ''payee'') ''id'')])),
                  (''payoutMethod'', pick (get e ''payoutMethod'')
                       [''id'', ''name'', ''data'', ''isSaved'', ''type'']),
                  (''attachedFiles'', files),
                  (''items'', r)])"
    by blast
  have "get p ''items'' = r"
    unfolding p get_def by (subst lookup_pick_append) simp_all
  with prepareItems_Inr[OF r] show ?thesis by auto
qed

lemma prepareExpenseForSubmit_payee:
  assumes "prepareExpenseForSubmit e = Inr p"
  shows "lookup p ''payee'' =
           Some (js_and (get e ''payee'') (JObj [(payeeIdField e, get (get e ''payee'') ''id'')]))"
proof -
  from prepareExpenseForSubmit_Inr[OF assms] obtain files r where
    p: "p = JObj (props (pick e [''id'', ''description'', ''type'', ''privateMessage'', ''invoiceInfo'', ''tags'']) @
                 [(''payee'', js_and (get e ''payee'')
                       (JObj [(payeeIdField e, get (get e ''payee'') ''id'')])),
                  (''payoutMethod'', pick (get e ''payoutMethod'')
                       [''id'', ''name'', ''data'', ''isSaved'', ''type'']),
                  (''attachedFiles'', files),
                  (''items'', r)])"
    by blast
  show ?thesis unfolding p by (subst lookup_pick_append) simp_all
qed

text \<open>
  The function returns a payload for every draft whose items are an array of objects
  and whose attached files, if any, are an array: it throws on no well-formed draft.
\<close>

lemma map_err_prepareItem_total:
  "\<forall>item \<in> set its. \<not> nullish item \<Longrightarrow> \<exists>its'. map_err (prepareItem e) its = Inr its'"
  by (induction its) (auto simp: prepareItem_def)

lemma prepareExpenseForSubmit_returns:
  assumes "\<not> nullish e" and "get e ''items'' = JArr its"
    and "\<forall>item \<in> set its. \<not> nullish item"
    and "nullish (get e ''attachedFiles'') \<or> (\<exists>fs. get e ''attachedFiles'' = JArr fs)"
  shows "\<exists>p. prepareExpenseForSubmit e = Inr p"
proof -
  from map_err_prepareItem_total[OF assms(3)] obtain its'
    where "map_err (prepareItem e) its = Inr its'" by blast
  with assms(2) have "prepareItems e = Inr (JArr its')" by (simp add: prepareItems_def)
  moreover from assms(4) have "\<exists>files. prepareAttachedFiles (get e ''attachedFiles'') = Inr files"
    by (auto simp: prepareAttachedFiles_def)
  ultimately show ?thesis using assms(1) by (auto simp: prepareExpenseForSubmit_def)
qed

lemma draftInvoice_payload: "prepareExpenseForSubmit draftInvoice = Inr payloadInvoice"
  by code_simp

lemma draftLegacyPayee_payload: "prepareExpenseForSubmit draftLegacyPayee = Inr payloadLegacyPayee"
  by code_simp

lemma draftNoPayee_payload: "prepareExpenseForSubmit draftNoPayee = Inr payloadNoPayee"
  by code_simp

text \<open>
  Claim C1. For a draft of type INVOICE, no item of the payload returned by
  \<^verbatim>\<open>prepareExpenseForSubmit\<close> has a \<^verbatim>\<open>url\<close> key, whatever the items of the draft carried.
\<close>

theorem prepareExpenseForSubmit_invoice_omits_url:
  assumes "prepareExpenseForSubmit expenseData = Inr payload"
    and "get expenseData ''type'' = expenseTypes_INVOICE"
  shows "\<exists>items. get payload ''items'' = JArr items \<and>
           (\<forall>item \<in> set items. lookup item ''url'' = None)"
proof -
  from prepareExpenseForSubmit_items[OF assms(1)] obtain its its' where
    a: "get expenseData ''items'' = JArr its" "get payload ''items'' = JArr its'"
       "map_err (prepareItem expenseData) its = Inr its'"
    by blast
  have "lookup item ''url'' = None" if "item \<in> set its'" for item
  proof -
    from that obtain i where i: "i < length its'" "its' ! i = item"
      by (auto simp: in_set_conv_nth)
    with map_err_Inr_length[OF a(3)] map_err_Inr_nth[OF a(3), of i]
    have "prepareItem expenseData (its ! i) = Inr item" by simp
    then show ?thesis using assms(2)
      by (auto simp: prepareItem_def strict_eq_def lookup_pick split: if_splits)
  qed
  with a(2) show ?thesis by blast
qed

theorem prepareExpenseForSubmit_invoice_omits_url_witness:
  "get draftInvoice ''type'' = expenseTypes_INVOICE \<and>
   prepareExpenseForSubmit draftInvoice = Inr payloadInvoice \<and>
   (\<exists>items. get payloadInvoice ''items'' = JArr items \<and> length items = 2 \<and>
      (\<forall>item \<in> set items. lookup item ''url'' = None))"
proof -
  have t: "get draftInvoice ''type'' = expenseTypes_INVOICE" by code_simp
  obtain items where i: "get payloadInvoice ''items'' = JArr items"
      "\<forall>item \<in> set items. lookup item ''url'' = None"
    using prepareExpenseForSubmit_invoice_omits_url[OF draftInvoice_payload t] by blast
  from i(1) have "length items = 2"
    by (auto simp: payloadInvoice_def get_def lookup_def)
  with t i draftInvoice_payload show ?thesis by blast
qed

text \<open>
  Claim C2. For every item of a draft, the item of the payload has no \<^verbatim>\<open>id\<close> key when the
  \<^verbatim>\<open>__isNew\<close> flag of the item is set, and carries the \<^verbatim>\<open>id\<close> of the item otherwise; so for an
  item that has an id, the id is omitted exactly when the flag is set. The keys
  \<^verbatim>\<open>description\<close>, \<^verbatim>\<open>incurredAt\<close> and \<^verbatim>\<open>amount\<close> are carried over as the item has them.
\<close>

theorem prepareExpenseForSubmit_item_id:
  assumes "prepareExpenseForSubmit expenseData = Inr payload"
    and "get expenseData ''items'' = JArr items"
    and "i < length items"
  shows "\<exists>items'. get payload ''items'' = JArr items' \<and> length items' = length items \<and>
     (truthy (get (items ! i) ''__isNew'') \<longrightarrow> lookup (items' ! i) ''id'' = None) \<and>
     (\<not> truthy (get (items ! i) ''__isNew'') \<longrightarrow>
        lookup (items' ! i) ''id'' = lookup (items ! i) ''id'') \<and>
     (lookup (items ! i) ''id'' \<noteq> None \<longrightarrow>
        (lookup (items' ! i) ''id'' = None) = truthy (get (items ! i) ''__isNew'')) \<and>
     lookup (items' ! i) ''description'' = lookup (items ! i) ''description'' \<and>
     lookup (items' ! i) ''incurredAt'' = lookup (items ! i) ''incurredAt'' \<and>
     lookup (items' ! i) ''amount'' = lookup (items ! i) ''amount''"
proof -
  from prepareExpenseForSubmit_items[OF assms(1)] assms(2) obtain its' where
    a: "get payload ''items'' = JArr its'" "map_err (prepareItem expenseData) items = Inr its'"
    by auto
  have len: "length its' = length items" by (rule map_err_Inr_length[OF a(2)])
  have item: "prepareItem expenseData (items ! i) = Inr (its' ! i)"
    by (rule map_err_Inr_nth[OF a(2) assms(3)])
  define ks where "ks =
        (if truthy (get (items ! i) ''__isNew'') then [] else [''id'']) @
        (if strict_eq (get expenseData ''type'') expenseTypes_INVOICE then [] else [''url'']) @
        [''description'', ''incurredAt'', ''amount'']"
  from item have out: "its' ! i = pick (items ! i) ks"
    by (auto simp: prepareItem_def ks_def split: if_splits)
  have
    "(truthy (get (items ! i) ''__isNew'') \<longrightarrow> lookup (its' ! i) ''id'' = None) \<and>
     (\<not> truthy (get (items ! i) ''__isNew'') \<longrightarrow>
        lookup (its' ! i) ''id'' = lookup (items ! i) ''id'') \<and>
     lookup (its' ! i) ''description'' = lookup (items ! i) ''description'' \<and>
     lookup (its' ! i) ''incurredAt'' = lookup (items ! i) ''incurredAt'' \<and>
     lookup (its' ! i) ''amount'' = lookup (items ! i) ''amount''"
    unfolding out lookup_pick by (simp add: ks_def)
  with a(1) len show ?thesis by auto
qed

theorem prepareExpenseForSubmit_item_id_witness:
  "\<exists>items items'.
     prepareExpenseForSubmit draftInvoice = Inr payloadInvoice \<and>
     get draftInvoice ''items'' = JArr items \<and> length items = 2 \<and>
     get payloadInvoice ''items'' = JArr items' \<and> length items' = 2 \<and>
     truthy (get (items ! 0) ''__isNew'') \<and> lookup (items ! 0) ''id'' = Some (JStr ''k1'') \<and>
     lookup (items' ! 0) ''id'' = None \<and>
     \<not> truthy (get (items ! 1) ''__isNew'') \<and> lookup (items' ! 1) ''id'' = Some (JStr ''item-7'') \<and>
     lookup (items' ! 0) ''amount'' = Some (JNum 4200) \<and>
     lookup (items' ! 1) ''description'' = Some (JStr ''Domain'')"
proof -
  let ?items = "[JObj [(''id'', JStr ''k1''), (''__isNew'', JBool True),
                (''url'', JStr ''https://example.org/a.png''),
                (''description'', JStr ''Server''), (''incurredAt'', JStr ''2020-05-01''),
                (''amount'', JNum 4200)],
          JObj [(''id'', JStr ''item-7''),
                (''url'', JStr ''https://example.org/b.png''),
                (''description'', JStr ''Domain''), (''incurredAt'', JStr ''2020-05-02''),
                (''amount'', JNum 1500)]]"
  have its: "get draftInvoice ''items'' = JArr ?items" by code_simp
  have l0: "0 < length ?items" and l1: "1 < length ?items" by simp_all
  note a = prepareExpenseForSubmit_item_id[OF draftInvoice_payload its l0]
  note b = prepareExpenseForSubmit_item_id[OF draftInvoice_payload its l1]
  from a b draftInvoice_payload its show ?thesis
    by (auto simp: get_def lookup_def)
qed

text \<open>
  Claim C3. A payee that is set is reduced to an object with one identifier key: the key
  is \<^verbatim>\<open>id\<close> when \<^verbatim>\<open>payee.id\<close> is a string, and \<^verbatim>\<open>legacyId\<close> otherwise; the value is \<^verbatim>\<open>payee.id\<close> in
  both cases. So the payee \<^verbatim>\<open>{id: "abc"}\<close> is sent as \<^verbatim>\<open>{id: "abc"}\<close>, and the payee
  \<^verbatim>\<open>{id: 42, legacyId: 42}\<close> as \<^verbatim>\<open>{legacyId: 42}\<close>.
\<close>

theorem prepareExpenseForSubmit_payee_reduced:
  assumes "prepareExpenseForSubmit expenseData = Inr payload"
    and "truthy (get expenseData ''payee'')"
  shows "lookup payload ''payee'' =
     Some (if typeof (get (get expenseData ''payee'') ''id'') = ''string''
           then JObj [(''id'', get (get expenseData ''payee'') ''id'')]
           else JObj [(''legacyId'', get (get expenseData ''payee'') ''id'')])"
proof -
  from assms(2) have "\<not> nullish (get expenseData ''payee'')"
    by (cases "get expenseData ''payee''") simp_all
  with prepareExpenseForSubmit_payee[OF assms(1)] assms(2) show ?thesis
    by (simp add: js_and_def payeeIdField_def get_opt_def)
qed

theorem prepareExpenseForSubmit_payee_reduced_witness:
  "get draftInvoice ''payee'' = JObj [(''id'', JStr ''abc'')] \<and>
   truthy (get draftInvoice ''payee'') \<and>
   prepareExpenseForSubmit draftInvoice = Inr payloadInvoice \<and>
   lookup payloadInvoice ''payee'' = Some (JObj [(''id'', JStr ''abc'')]) \<and>
   get draftLegacyPayee ''payee'' = JObj [(''id'', JNum 42), (''legacyId'', JNum 42)] \<and>
   truthy (get draftLegacyPayee ''payee'') \<and>
   prepareExpenseForSubmit draftLegacyPayee = Inr payloadLegacyPayee \<and>
   lookup payloadLegacyPayee ''payee'' = Some (JObj [(''legacyId'', JNum 42)])"
proof -
  have p1: "get draftInvoice ''payee'' = JObj [(''id'', JStr ''abc'')]" by code_simp
  have p2: "get draftLegacyPayee ''payee'' = JObj [(''id'', JNum 42), (''legacyId'', JNum 42)]"
    by code_simp
  have t1: "truthy (get draftInvoice ''payee'')" by (simp add: p1)
  have t2: "truthy (get draftLegacyPayee ''payee'')" by (simp add: p2)
  from prepareExpenseForSubmit_payee_reduced[OF draftInvoice_payload t1, unfolded p1]
  have a: "lookup payloadInvoice ''payee'' = Some (JObj [(''id'', JStr ''abc'')])"
    by (simp add: get_def lookup_def)
  from prepareExpenseForSubmit_payee_reduced[OF draftLegacyPayee_payload t2, unfolded p2]
  have b: "lookup payloadLegacyPayee ''payee'' = Some (JObj [(''legacyId'', JNum 42)])"
    by (simp add: get_def lookup_def)
  from p1 p2 t1 t2 a b draftInvoice_payload draftLegacyPayee_payload show ?thesis by blast
qed

text \<open>
  Claim C10. When the payee of the draft is \<^verbatim>\<open>null\<close> or \<^verbatim>\<open>undefined\<close>, the \<^verbatim>\<open>payee\<close> of the
  payload is that value itself, not an identifier object.
\<close>

theorem prepareExpenseForSubmit_payee_unset:
  assumes "prepareExpenseForSubmit expenseData = Inr payload"
    and "get expenseData ''payee'' = JNull \<or> get expenseData ''payee'' = JUndefined"
  shows "lookup payload ''payee'' = Some (get expenseData ''payee'') \<and>
         (\<forall>kvs. get payload ''payee'' \<noteq> JObj kvs)"
  using prepareExpenseForSubmit_payee[OF assms(1)] assms(2)
  by (auto simp: js_and_def get_def)

theorem prepareExpenseForSubmit_payee_unset_witness:
  "get draftNoPayee ''payee'' = JNull \<and>
   prepareExpenseForSubmit draftNoPayee = Inr payloadNoPayee \<and>
   lookup payloadNoPayee ''payee'' = Some JNull"
proof -
  have p: "get draftNoPayee ''payee'' = JNull" by code_simp
  from prepareExpenseForSubmit_payee_unset[OF draftNoPayee_payload disjI1[OF p]] p
    draftNoPayee_payload
  show ?thesis by simp
qed

section \<open>Properties of validation\<close>

lemma map_of_set_props:
  "map_of (set_props kvs k v) k' = (if k' = k then Some v else map_of kvs k')"
  by (induction kvs) auto

lemma map_of_requireFields_props:
  "map_of (requireFields_props obj fs) f =
     (if f \<in> set fs \<and> missingOrEmpty (get obj f) then Some requiredFieldError else None)"
  by (induction fs) auto

lemma lookup_requireFields:
  "lookup (requireFields obj fs) f =
     (if f \<in> set fs \<and> missingOrEmpty (get obj f) then Some requiredFieldError else None)"
  by (simp add: lookup_def requireFields_def map_of_requireFields_props)

lemma lookup_assign:
  "assign obj k v = Inr obj' \<Longrightarrow> lookup obj' k' = (if k' = k then Some v else lookup obj k')"
  by (auto simp: assign_def lookup_def map_of_set_props split: jsval.splits)

lemma missingOrEmpty_falsy: "missingOrEmpty v \<Longrightarrow> \<not> truthy v"
  by (cases v) simp_all

lemma get_JArr_not_nullish: "get v k = JArr xs \<Longrightarrow> \<not> nullish v"
  by (cases v) (auto simp: get_def lookup_def)

text \<open>
  The error mapping that is returned is the one of \<^verbatim>\<open>requireFields\<close> after at most two
  assignments: to \<^verbatim>\<open>items\<close>, and to \<^verbatim>\<open>payoutMethod\<close> when the payout method is set.
\<close>

lemma validate_Inr:
  assumes "validate vi vp expense = Inr errors"
  shows "\<exists>errors1.
      (errors1 = requireFields expense [''description'', ''payee'', ''payoutMethod'', ''currency''] \<or>
       (\<exists>v. assign (requireFields expense [''description'', ''payee'', ''payoutMethod'', ''currency''])
               ''items'' v = Inr errors1)) \<and>
      (errors = errors1 \<or>
       (truthy (get expense ''payoutMethod'') \<and>
        assign errors1 ''payoutMethod'' (vp (get expense ''payoutMethod'')) = Inr errors))"
  using assms
  by (auto simp: validate_def Let_def split: if_splits sum.splits jsval.splits)

text \<open>\<^verbatim>\<open>validate\<close> returns a mapping for every draft whose items are an array.\<close>

lemma validate_returns:
  assumes "get expense ''items'' = JArr its"
  shows "\<exists>errors. validate vi vp expense = Inr errors"
proof -
  from assms have "\<not> nullish expense" by (rule get_JArr_not_nullish)
  with assms show ?thesis
    by (auto simp: validate_def Let_def requireFields_def assign_def split: if_splits sum.splits)
qed

lemma validate_draftNoPayee:
  "validate (\<lambda>expense item. noErrors) (\<lambda>payoutMethod. noErrors) draftNoPayee = Inr errorsNoPayee"
  by code_simp

lemma validate_draftInvoice:
  "validate (\<lambda>expense item. noErrors) (\<lambda>payoutMethod. noErrors) draftInvoice = Inr noErrors"
  by code_simp

text \<open>
  Claim C4. When \<^verbatim>\<open>description\<close>, \<^verbatim>\<open>payee\<close>, \<^verbatim>\<open>payoutMethod\<close> or \<^verbatim>\<open>currency\<close> is missing or
  empty in the draft, the error mapping returned by \<^verbatim>\<open>validate\<close> holds the required-field
  error under the name of that field, whatever the two sub-validators answer; so an
  empty description always has its required-field error.
\<close>

theorem validate_required_fields:
  assumes "validate validateExpenseItem validatePayoutMethod expense = Inr errors"
    and "field \<in> {''description'', ''payee'', ''payoutMethod'', ''currency''}"
    and "missingOrEmpty (get expense field)"
  shows "lookup errors field = Some requiredFieldError"
proof -
  let ?req = "requireFields expense [''description'', ''payee'', ''payoutMethod'', ''currency'']"
  from validate_Inr[OF assms(1)] obtain errors1 where
    e1: "errors1 = ?req \<or> (\<exists>v. assign ?req ''items'' v = Inr errors1)" and
    e2: "errors = errors1 \<or>
       (truthy (get expense ''payoutMethod'') \<and>
        assign errors1 ''payoutMethod'' (validatePayoutMethod (get expense ''payoutMethod''))
          = Inr errors)"
    by blast
  from assms(2,3) have r: "lookup ?req field = Some requiredFieldError"
    by (simp add: lookup_requireFields)
  from assms(2) have ni: "field \<noteq> ''items''" by auto
  from e1 r ni have l1: "lookup errors1 field = Some requiredFieldError"
    by (auto simp: lookup_assign)
  show ?thesis
  proof (cases "errors = errors1")
    case True
    with l1 show ?thesis by simp
  next
    case False
    with e2 have t: "truthy (get expense ''payoutMethod'')" and
      a: "assign errors1 ''payoutMethod'' (validatePayoutMethod (get expense ''payoutMethod''))
            = Inr errors"
      by auto
    from t assms(3) have "field \<noteq> ''payoutMethod''" using missingOrEmpty_falsy by blast
    with lookup_assign[OF a, of field] l1 show ?thesis by simp
  qed
qed

theorem validate_required_fields_witness:
  "get draftNoPayee ''description'' = JStr [] \<and>
   missingOrEmpty (get draftNoPayee ''description'') \<and>
   validate (\<lambda>expense item. noErrors) (\<lambda>payoutMethod. noErrors) draftNoPayee = Inr errorsNoPayee \<and>
   lookup errorsNoPayee ''description'' = Some requiredFieldError"
proof -
  have d: "get draftNoPayee ''description'' = JStr []" by code_simp
  have m: "missingOrEmpty (get draftNoPayee ''description'')" by (simp add: d)
  have f: "''description'' \<in> {''description'', ''payee'', ''payoutMethod'', ''currency''}" by simp
  from validate_required_fields[OF validate_draftNoPayee f m] d m validate_draftNoPayee
  show ?thesis by simp
qed

subsection \<open>Purity\<close>






section \<open>Properties of the form\<close>

text \<open>
  Claim C6. With an empty item list the submit button is disabled, whatever the payout
  method: \<^verbatim>\<open>stepTwoCompleted\<close> is falsy. In general the button is enabled exactly when
  type, description and payout method are set, there is at least one item, and the
  form is valid.
\<close>

theorem submitDisabled_gating:
  assumes "get values ''items'' = JArr its"
  shows "submitDisabled values isValid =
           Inr (\<not> (truthy (get values ''type'') \<and> truthy (get values ''description'') \<and>
                    its \<noteq> [] \<and> truthy (get values ''payoutMethod'') \<and> isValid)) \<and>
         (its = [] \<longrightarrow>
            (\<exists>two. stepTwoCompleted values = Inr two \<and> \<not> truthy two) \<and>
            submitDisabled values isValid = Inr True)"
proof -
  from assms have nn: "\<not> nullish values" by (rule get_JArr_not_nullish)
  with assms show ?thesis
    by (auto simp: submitDisabled_def stepTwoCompleted_def stepOneCompleted_def
        hasBaseFormFieldsCompleted_def js_and_def)
qed

theorem submitDisabled_gating_witness:
  "get draftNoItems ''items'' = JArr [] \<and> truthy (get draftNoItems ''payoutMethod'') \<and>
   submitDisabled draftNoItems True = Inr True \<and>
   (\<exists>two. stepTwoCompleted draftNoItems = Inr two \<and> \<not> truthy two)"
proof -
  have i: "get draftNoItems ''items'' = JArr []" by code_simp
  have p: "truthy (get draftNoItems ''payoutMethod'')" by code_simp
  from submitDisabled_gating[OF i, of True] i p show ?thesis by simp
qed

lemma submitHandler_keeps_hasValidate:
  "hasValidate st \<Longrightarrow> hasValidate (snd (submitHandler vi vp onSubmit values st))"
  by (auto simp: submitHandler_def split: sum.splits)

lemma submitAttempts_keeps_hasValidate:
  "hasValidate st \<Longrightarrow> hasValidate (submitAttempts vi vp onSubmit later st)"
  by (induction later arbitrary: st) (auto simp: submitHandler_keeps_hasValidate)

text \<open>
  Claim C7. On a submit attempt with a non-empty error mapping, \<^verbatim>\<open>onSubmit\<close> is not
  called, the errors are set on the form, and the validation mode is on-every-change
  from then on, through every later submit attempt. With an empty mapping \<^verbatim>\<open>onSubmit\<close> is
  called with the values of the draft, and its result is the result of the handler.
\<close>

theorem submitHandler_guards_onSubmit:
  assumes "validate validateExpenseItem validatePayoutMethod values = Inr errors"
  shows "(\<not> isEmpty errors \<longrightarrow>
            (\<exists>st'. submitHandler validateExpenseItem validatePayoutMethod onSubmit values st
                      = (Inr JUndefined, st') \<and>
               submitted st' = submitted st \<and> formErrors st' = errors \<and>
               validationMode st' = OnEveryChange \<and>
               (\<forall>later. validationMode
                   (submitAttempts validateExpenseItem validatePayoutMethod onSubmit later st')
                     = OnEveryChange))) \<and>
         (isEmpty errors \<longrightarrow>
            (\<exists>st'. submitHandler validateExpenseItem validatePayoutMethod onSubmit values st
                      = (onSubmit values, st') \<and>
               submitted st' = submitted st @ [values] \<and>
               formErrors st' = formErrors st \<and> hasValidate st' = hasValidate st))"
proof (intro conjI impI)
  assume ne: "\<not> isEmpty errors"
  let ?st' = "st\<lparr>hasValidate := True, formErrors := errors\<rparr>"
  have h: "submitHandler validateExpenseItem validatePayoutMethod onSubmit values st
             = (Inr JUndefined, ?st')"
    using assms ne by (simp add: submitHandler_def)
  have hv: "hasValidate ?st'" by simp
  have "\<forall>later. validationMode
          (submitAttempts validateExpenseItem validatePayoutMethod onSubmit later ?st')
            = OnEveryChange"
    using submitAttempts_keeps_hasValidate[OF hv] by (simp add: validationMode_def)
  with h show "\<exists>st'. submitHandler validateExpenseItem validatePayoutMethod onSubmit values st
                      = (Inr JUndefined, st') \<and>
               submitted st' = submitted st \<and> formErrors st' = errors \<and>
               validationMode st' = OnEveryChange \<and>
               (\<forall>later. validationMode
                   (submitAttempts validateExpenseItem validatePayoutMethod onSubmit later st')
                     = OnEveryChange)"
    by (intro exI[of _ ?st']) (simp add: validationMode_def)
next
  assume "isEmpty errors"
  with assms show "\<exists>st'. submitHandler validateExpenseItem validatePayoutMethod onSubmit values st
                      = (onSubmit values, st') \<and>
               submitted st' = submitted st @ [values] \<and>
               formErrors st' = formErrors st \<and> hasValidate st' = hasValidate st"
    by (simp add: submitHandler_def)
qed

theorem submitHandler_guards_onSubmit_witness:
  "validate (\<lambda>expense item. noErrors) (\<lambda>payoutMethod. noErrors) draftNoPayee = Inr errorsNoPayee \<and>
   \<not> isEmpty errorsNoPayee \<and>
   submitHandler (\<lambda>expense item. noErrors) (\<lambda>payoutMethod. noErrors) Inr draftNoPayee formInitial
     = (Inr JUndefined, \<lparr>hasValidate = True, formErrors = errorsNoPayee, submitted = []\<rparr>) \<and>
   validate (\<lambda>expense item. noErrors) (\<lambda>payoutMethod. noErrors) draftInvoice = Inr noErrors \<and>
   isEmpty noErrors \<and>
   submitHandler (\<lambda>expense item. noErrors) (\<lambda>payoutMethod. noErrors) Inr draftInvoice formInitial
     = (Inr draftInvoice, \<lparr>hasValidate = False, formErrors = JObj [], submitted = [draftInvoice]\<rparr>)"
proof -
  have ne: "\<not> isEmpty errorsNoPayee" by code_simp
  have e: "isEmpty noErrors" by code_simp
  from submitHandler_guards_onSubmit[OF validate_draftNoPayee, of Inr formInitial] ne
  have a: "submitHandler (\<lambda>expense item. noErrors) (\<lambda>payoutMethod. noErrors) Inr draftNoPayee
             formInitial
     = (Inr JUndefined, \<lparr>hasValidate = True, formErrors = errorsNoPayee, submitted = []\<rparr>)"
    by (auto simp: formInitial_def validationMode_def split: if_splits)
  from submitHandler_guards_onSubmit[OF validate_draftInvoice, of Inr formInitial] e
  have b: "submitHandler (\<lambda>expense item. noErrors) (\<lambda>payoutMethod. noErrors) Inr draftInvoice
             formInitial
     = (Inr draftInvoice, \<lparr>hasValidate = False, formErrors = JObj [], submitted = [draftInvoice]\<rparr>)"
    by (auto simp: formInitial_def)
  from a b ne e validate_draftNoPayee validate_draftInvoice show ?thesis by blast
qed





section \<open>The submitting flag of the member edit modal\<close>

text \<open>
  Claim C5 says that the submitting flag is set for the whole duration of the mutation
  and reset when the mutation fails. The handler of \<^verbatim>\<open>EditMemberModal.js\<close> does neither:
  the only \<^verbatim>\<open>setSubmitting\<close> comes after the \<^verbatim>\<open>await\<close>. While the mutation is in flight the
  flag is still false; a failed mutation leaves it false and is passed on to the
  caller; a successful one sets it to true, where it stays.
\<close>

theorem handleSubmitForm_submitting_after_mutation:
  "handleSubmitForm True (\<lambda>options. Inl networkError) memberAlice collectiveNoTransferwise
     editedValues \<lparr>submitting = False\<rparr>
     = (Some \<lparr>submitting = False\<rparr>, Inl networkError, \<lparr>submitting = False\<rparr>) \<and>
   handleSubmitForm True (\<lambda>options. Inr mutationResponse) memberAlice collectiveNoTransferwise
     editedValues \<lparr>submitting = False\<rparr>
     = (Some \<lparr>submitting = False\<rparr>, Inr (), \<lparr>submitting = True\<rparr>)"
  by (simp add: handleSubmitForm_def handleSubmitForm_issue_def handleSubmitForm_resume_def
      memberAlice_def editedValues_def mutationResponse_def get_def lookup_def)

end
